theory Spec2Isabelle
  imports Complex_Main
begin

section \<open>The drive-by-wire node of \<^verbatim>\<open>ros/src/twist_controller/dbw_node.py\<close>\<close>

text \<open>
  The node caches the latest message of five topics, and its loop turns the cache into
  throttle, steering and brake commands. Python floats are modelled as \<^typ>\<open>real\<close>
  (exact arithmetic), \<^verbatim>\<open>None\<close> as \<^term>\<open>None\<close>, a raised exception as the left
  summand of a sum type, and the messages published in one pass of the loop as a list of
  effects in the order of the calls.
\<close>

subsection \<open>Messages\<close>

text \<open>Only the fields the node reads or writes are kept.\<close>

record Bool_msg =
  data :: bool

record TwistStamped =
  twist_linear_x :: real
  twist_angular_z :: real

record PoseStamped =
  pose_position_x :: real
  pose_position_y :: real

record Waypoint =
  pose_pose_position_x :: real
  pose_pose_position_y :: real

record Lane =
  lane_waypoints :: "Waypoint list"

datatype pedal_cmd_type = CMD_NONE | CMD_PEDAL | CMD_PERCENT | CMD_TORQUE

record ThrottleCmd =
  throttle_enable :: bool
  throttle_pedal_cmd_type :: pedal_cmd_type
  throttle_pedal_cmd :: real

record SteeringCmd =
  steering_enable :: bool
  steering_wheel_angle_cmd :: real

record BrakeCmd =
  brake_enable :: bool
  brake_pedal_cmd_type :: pedal_cmd_type
  brake_pedal_cmd :: real

text \<open>
  What one pass of the loop does to the outside: a message on \<^verbatim>\<open>/vehicle/cte\<close>,
  \<^verbatim>\<open>/vehicle/throttle_cmd\<close>, \<^verbatim>\<open>/vehicle/steering_cmd\<close> or
  \<^verbatim>\<open>/vehicle/brake_cmd\<close>, or the call \<^verbatim>\<open>rate.sleep()\<close>.
\<close>

datatype effect =
    Cte_pub real
  | Throttle_pub ThrottleCmd
  | Steer_pub SteeringCmd
  | Brake_pub BrakeCmd
  | Rate_sleep

datatype error = IndexError | LinAlgError

subsection \<open>The node's fields\<close>

type_synonym point = "real \<times> real"

text \<open>
  \<open>'c\<close> is the state of the \<^verbatim>\<open>Controller\<close> object, whose class lives in
  \<^verbatim>\<open>twist_controller.py\<close>. \<^verbatim>\<open>dbw_enabled\<close> holds the message object itself:
  \<^verbatim>\<open>dbw_enabled_cb\<close> stores \<^verbatim>\<open>msg\<close>, not \<^verbatim>\<open>msg.data\<close>.
\<close>

record 'c DBWNode =
  controller :: 'c
  current_velocity :: "real option"
  current_ang_velocity :: "real option"
  dbw_enabled :: "Bool_msg option"
  linear_velocity :: "real option"
  angular_velocity :: "real option"
  current_position :: "point option"
  waypoints :: "Waypoint list option"

definition init :: "'c \<Rightarrow> 'c DBWNode" where
  "init c = \<lparr>controller = c, current_velocity = None, current_ang_velocity = None,
     dbw_enabled = None, linear_velocity = None, angular_velocity = None,
     current_position = None, waypoints = None\<rparr>"

subsection \<open>Callbacks\<close>

definition dbw_enabled_cb :: "'c DBWNode \<Rightarrow> Bool_msg \<Rightarrow> 'c DBWNode" where
  "dbw_enabled_cb self msg = self\<lparr>dbw_enabled := Some msg\<rparr>"

definition twist_cb :: "'c DBWNode \<Rightarrow> TwistStamped \<Rightarrow> 'c DBWNode" where
  "twist_cb self msg =
     self\<lparr>linear_velocity := Some (twist_linear_x msg),
          angular_velocity := Some (twist_angular_z msg)\<rparr>"

definition velocity_cb :: "'c DBWNode \<Rightarrow> TwistStamped \<Rightarrow> 'c DBWNode" where
  "velocity_cb self msg = self\<lparr>current_velocity := Some (twist_linear_x msg)\<rparr>"

definition pose_cb :: "'c DBWNode \<Rightarrow> PoseStamped \<Rightarrow> 'c DBWNode" where
  "pose_cb self msg =
     self\<lparr>current_position := Some (pose_position_x msg, pose_position_y msg)\<rparr>"

definition waypoints_cb :: "'c DBWNode \<Rightarrow> Lane \<Rightarrow> 'c DBWNode" where
  "waypoints_cb self msg = self\<lparr>waypoints := Some (lane_waypoints msg)\<rparr>"

subsection \<open>The cross-track error\<close>

text \<open>
  \<^verbatim>\<open>np.arctan2\<close> in exact arithmetic: the angle in \<open>(-\<pi>, \<pi>]\<close> of the point
  \<open>(x, y)\<close>, and 0 at the origin.
\<close>

definition arctan2 :: "real \<Rightarrow> real \<Rightarrow> real" where
  "arctan2 y x =
     (if 0 < x then arctan (y / x)
      else if x < 0 then (if 0 \<le> y then arctan (y / x) + pi else arctan (y / x) - pi)
      else if 0 < y then pi / 2
      else if y < 0 then - (pi / 2)
      else 0)"

text \<open>\<^verbatim>\<open>np.polyval\<close>: Horner's rule, highest coefficient first.\<close>

definition polyval :: "real list \<Rightarrow> real \<Rightarrow> real" where
  "polyval p x = foldl (\<lambda>y pv. y * x + pv) 0 p"

text \<open>A row vector times a 2 x 2 matrix given by its rows, as \<^verbatim>\<open>np.dot\<close> computes it.\<close>

type_synonym matrix = "(real \<times> real) \<times> (real \<times> real)"

fun dot :: "point \<Rightarrow> matrix \<Rightarrow> point" where
  "dot (x, y) ((a, b), (c, d)) = (x * a + y * c, x * b + y * d)"

fun sub :: "point \<Rightarrow> point \<Rightarrow> point" where
  "sub (x, y) (a, b) = (x - a, y - b)"

definition position :: "Waypoint \<Rightarrow> point" where
  "position waypoint = (pose_pose_position_x waypoint, pose_pose_position_y waypoint)"

text \<open>
  \<^verbatim>\<open>np.polyfit\<close> belongs to numpy, not to this repository: it is a parameter, called
  with the x values, the y values and the degree, and returning the coefficients (highest
  first) or raising.
\<close>

type_synonym polyfit_fn = "real list \<Rightarrow> real list \<Rightarrow> nat \<Rightarrow> error + real list"

text \<open>
  \<^verbatim>\<open>positions[0]\<close> raises \<^verbatim>\<open>IndexError\<close> on an empty array, and
  \<^verbatim>\<open>positions[offset, 1]\<close> raises it when there are at most \<open>offset\<close> rows.
\<close>

definition calculate_cte :: "polyfit_fn \<Rightarrow> point \<Rightarrow> Waypoint list \<Rightarrow> error + real" where
  "calculate_cte polyfit current_pos wps =
     (let positions = map position wps in
      if positions = [] then Inl IndexError
      else
        let origin = positions ! 0;
            positions = map (\<lambda>p. sub p origin) positions;
            offset = 10
        in if length positions \<le> offset then Inl IndexError
           else
             let angle = arctan2 (snd (positions ! offset)) (fst (positions ! offset));
                 rotation = ((cos angle, - sin angle), (sin angle, cos angle));
                 positions = map (\<lambda>p. dot p rotation) positions;
                 translated = sub current_pos origin;
                 rotated = dot translated rotation
             in case polyfit (map fst positions) (map snd positions) 2 of
                  Inl e \<Rightarrow> Inl e
                | Inr coefficients \<Rightarrow>
                    let expected = polyval coefficients (fst rotated);
                        actual = snd rotated
                    in Inr (actual - expected))"

subsection \<open>Publishing\<close>

definition publish :: "real \<Rightarrow> real \<Rightarrow> real \<Rightarrow> effect list" where
  "publish throttle brake steer =
     [Throttle_pub \<lparr>throttle_enable = True, throttle_pedal_cmd_type = CMD_PERCENT,
                    throttle_pedal_cmd = throttle\<rparr>,
      Steer_pub \<lparr>steering_enable = True, steering_wheel_angle_cmd = steer\<rparr>,
      Brake_pub \<lparr>brake_enable = True, brake_pedal_cmd_type = CMD_TORQUE,
                 brake_pedal_cmd = brake\<rparr>]"

subsection \<open>The loop\<close>

text \<open>
  Python's truth test of \<^verbatim>\<open>self.dbw_enabled\<close>: \<^verbatim>\<open>None\<close> is false; a
  \<^verbatim>\<open>std_msgs.msg.Bool\<close> object is an instance of a class with neither
  \<^verbatim>\<open>__nonzero__\<close> nor \<^verbatim>\<open>__len__\<close>, so it is true whatever its \<^verbatim>\<open>data\<close>.
\<close>

fun truth :: "Bool_msg option \<Rightarrow> bool" where
  "truth None = False"
| "truth (Some msg) = True"

definition gate :: "'c DBWNode \<Rightarrow> bool" where
  "gate self =
     (truth (dbw_enabled self) \<and>
      None \<notin> set [current_velocity self, linear_velocity self, angular_velocity self])"

text \<open>
  \<^verbatim>\<open>Controller.control\<close> is a parameter: it takes the controller's state, the current
  velocity, the two requested velocities and the cross-track error, and returns
  \<open>(throttle, brake, steering)\<close> with the controller's new state.
\<close>

type_synonym 'c control_fn =
  "'c \<Rightarrow> real \<Rightarrow> real \<Rightarrow> real \<Rightarrow> real \<Rightarrow> (real \<times> real \<times> real) \<times> 'c"

text \<open>
  The first statements of the guarded branch: the cross-track error and what is published
  on \<^verbatim>\<open>/vehicle/cte\<close>. An exception of \<^verbatim>\<open>calculate_cte\<close> is not caught.
\<close>

definition cte_step :: "polyfit_fn \<Rightarrow> 'c DBWNode \<Rightarrow> error + real \<times> effect list" where
  "cte_step polyfit self =
     (case (current_position self, waypoints self) of
        (Some pos, Some wps) \<Rightarrow>
          (case calculate_cte polyfit pos wps of
             Inl e \<Rightarrow> Inl e
           | Inr cte \<Rightarrow> Inr (cte, [Cte_pub cte]))
      | _ \<Rightarrow> Inr (0, []))"

text \<open>One pass of the body of \<^verbatim>\<open>while not rospy.is_shutdown()\<close>.\<close>

definition loop_body ::
  "'c control_fn \<Rightarrow> polyfit_fn \<Rightarrow> 'c DBWNode \<Rightarrow> error + effect list \<times> 'c DBWNode" where
  "loop_body control polyfit self =
     (if gate self then
        (case cte_step polyfit self of
           Inl e \<Rightarrow> Inl e
         | Inr (cte, diag) \<Rightarrow>
             (case control (controller self) (the (current_velocity self))
                     (the (linear_velocity self)) (the (angular_velocity self)) cte of
                ((throttle, brake, steering), c') \<Rightarrow>
                  Inr (diag @ publish throttle brake steering @ [Rate_sleep],
                       self\<lparr>controller := c'\<rparr>)))
      else Inr ([], self))"

text \<open>
  An execution is a schedule: the callbacks that run between two passes of the loop, and
  the passes themselves. The schedule ends when \<^verbatim>\<open>rospy.is_shutdown()\<close> is true. The
  result lists the effects of each completed pass, and ends with the node's state or with
  the exception that left the loop.
\<close>

datatype event =
    Dbw_enabled Bool_msg
  | Twist_cmd TwistStamped
  | Current_velocity TwistStamped
  | Current_pose PoseStamped
  | Final_waypoints Lane
  | Pass

fun callback :: "'c DBWNode \<Rightarrow> event \<Rightarrow> 'c DBWNode" where
  "callback self (Dbw_enabled msg) = dbw_enabled_cb self msg"
| "callback self (Twist_cmd msg) = twist_cb self msg"
| "callback self (Current_velocity msg) = velocity_cb self msg"
| "callback self (Current_pose msg) = pose_cb self msg"
| "callback self (Final_waypoints msg) = waypoints_cb self msg"
| "callback self Pass = self"

fun loop ::
  "'c control_fn \<Rightarrow> polyfit_fn \<Rightarrow> event list \<Rightarrow> 'c DBWNode
     \<Rightarrow> effect list list \<times> (error + 'c DBWNode)" where
  "loop control polyfit [] self = ([], Inr self)"
| "loop control polyfit (Pass # es) self =
     (case loop_body control polyfit self of
        Inl e \<Rightarrow> ([], Inl e)
      | Inr (out, self') \<Rightarrow>
          (case loop control polyfit es self' of (outs, r) \<Rightarrow> (out # outs, r)))"
| "loop control polyfit (e # es) self = loop control polyfit es (callback self e)"

subsection \<open>The steps of the estimator, stated on points\<close>

text \<open>
  The estimator as a sequence of geometric steps: move the path so that its first point is
  the origin, take the heading of the point at index 10, turn everything by minus the
  heading, fit, and compare the pose's ordinate with the fitted polynomial.
  \<open>rotate a\<close> is the counter-clockwise rotation by the angle \<open>a\<close>, and \<open>poly_at\<close>
  the value of the polynomial with the given coefficients, highest first.
\<close>

definition translate :: "point \<Rightarrow> point \<Rightarrow> point" where
  "translate origin p = (fst p - fst origin, snd p - snd origin)"

definition rotate :: "real \<Rightarrow> point \<Rightarrow> point" where
  "rotate a p = (fst p * cos a - snd p * sin a, fst p * sin a + snd p * cos a)"

fun poly_at :: "real list \<Rightarrow> real \<Rightarrow> real" where
  "poly_at [] x = 0"
| "poly_at (c # cs) x = c * x ^ length cs + poly_at cs x"

definition cte_steps :: "polyfit_fn \<Rightarrow> point \<Rightarrow> point list \<Rightarrow> error + real" where
  "cte_steps polyfit pose path =
     (let translated = map (translate (path ! 0)) path;
          heading = arctan2 (snd (translated ! 10)) (fst (translated ! 10));
          rotated = map (rotate (- heading)) translated;
          pose' = rotate (- heading) (translate (path ! 0) pose)
      in case polyfit (map fst rotated) (map snd rotated) 2 of
           Inl e \<Rightarrow> Inl e
         | Inr c \<Rightarrow> Inr (snd pose' - poly_at c (fst pose')))"

text \<open>
  The coordinates of \<open>q\<close> in the frame whose first axis is the heading of \<open>v\<close>: the
  product with the matrix that \<^verbatim>\<open>calculate_cte\<close> builds from the point at the offset.
\<close>

definition frame :: "point \<Rightarrow> point \<Rightarrow> point" where
  "frame v q =
     dot q ((cos (arctan2 (snd v) (fst v)), - sin (arctan2 (snd v) (fst v))),
            (sin (arctan2 (snd v) (fst v)), cos (arctan2 (snd v) (fst v))))"

text \<open>
  What it means for coefficients to be a least-squares fit of the given degree: no other
  coefficient list of that length has a smaller sum of squared residuals.
\<close>

definition sse :: "real list \<Rightarrow> real list \<Rightarrow> real list \<Rightarrow> real" where
  "sse c xs ys = sum_list (map (\<lambda>(x, y). (poly_at c x - y)\<^sup>2) (zip xs ys))"

definition least_squares :: "real list \<Rightarrow> real list \<Rightarrow> nat \<Rightarrow> real list \<Rightarrow> bool" where
  "least_squares xs ys deg c =
     (length c = deg + 1 \<and> (\<forall>c'. length c' = deg + 1 \<longrightarrow> sse c xs ys \<le> sse c' xs ys))"

text \<open>A rigid motion of the plane: the rotation by \<open>phi\<close>, then the translation by \<open>t\<close>.\<close>

definition rigid :: "real \<Rightarrow> point \<Rightarrow> point \<Rightarrow> point" where
  "rigid phi t p =
     (fst p * cos phi - snd p * sin phi + fst t, fst p * sin phi + snd p * cos phi + snd t)"

definition move_waypoint :: "real \<Rightarrow> point \<Rightarrow> Waypoint \<Rightarrow> Waypoint" where
  "move_waypoint phi t w =
     w\<lparr>pose_pose_position_x := fst (rigid phi t (position w)),
       pose_pose_position_y := snd (rigid phi t (position w))\<rparr>"

subsection \<open>Instances and inputs for running the model\<close>

text \<open>
  The theorems below hold for every controller and every fit. To run the loop on concrete
  inputs, two instances: a controller that counts its calls, and the exact solution of the
  normal equations of the degree-2 least-squares problem by Cramer's rule, where that
  solution is unique (numpy computes the fit in floating point from a singular value
  decomposition; where the normal equations are singular this instance raises, and it is
  not used there).
\<close>

definition sample_control :: "nat control_fn" where
  "sample_control n cv lv av cte = ((lv - cv, cte, av), Suc n)"

definition det3 ::
  "real \<Rightarrow> real \<Rightarrow> real \<Rightarrow> real \<Rightarrow> real \<Rightarrow> real \<Rightarrow> real \<Rightarrow> real \<Rightarrow> real \<Rightarrow> real" where
  "det3 a b c d e f g h i = a * (e * i - f * h) - b * (d * i - f * g) + c * (d * h - e * g)"

definition normal_equations_fit :: polyfit_fn where
  "normal_equations_fit xs ys deg =
     (let s0 = real (length xs);
          s1 = sum_list xs;
          s2 = sum_list (map (\<lambda>x. x ^ 2) xs);
          s3 = sum_list (map (\<lambda>x. x ^ 3) xs);
          s4 = sum_list (map (\<lambda>x. x ^ 4) xs);
          t0 = sum_list ys;
          t1 = sum_list (map (\<lambda>(x, y). x * y) (zip xs ys));
          t2 = sum_list (map (\<lambda>(x, y). x ^ 2 * y) (zip xs ys));
          d = det3 s4 s3 s2 s3 s2 s1 s2 s1 s0
      in if deg = 2 \<and> d \<noteq> 0
         then Inr [det3 t2 s3 s2 t1 s2 s1 t0 s1 s0 / d,
                   det3 s4 t2 s2 s3 t1 s1 s2 t0 s0 / d,
                   det3 s4 s3 t2 s3 s2 t1 s2 s1 t0 / d]
         else Inl LinAlgError)"

definition wp :: "real \<Rightarrow> real \<Rightarrow> Waypoint" where
  "wp x y = \<lparr>pose_pose_position_x = x, pose_pose_position_y = y\<rparr>"

text \<open>A node that has received an enable message and the velocity \<open>v\<close> on all three inputs.\<close>

definition enabled_node :: "real \<Rightarrow> point option \<Rightarrow> Waypoint list option \<Rightarrow> nat DBWNode" where
  "enabled_node v pos wps =
     \<lparr>controller = 0, current_velocity = Some v, current_ang_velocity = None,
      dbw_enabled = Some \<lparr>data = True\<rparr>, linear_velocity = Some v, angular_velocity = Some v,
      current_position = pos, waypoints = wps\<rparr>"

text \<open>The straight path \<open>(0,0), (1,0), ..., (20,0)\<close>.\<close>

definition straight_path :: "Waypoint list" where
  "straight_path = map (\<lambda>i. wp (real i) 0) [0..<21]"

text \<open>A path of 11 points whose point 10 is its point 0 again.\<close>

definition closed_path :: "Waypoint list" where
  "closed_path = [wp 0 0, wp 1 0, wp 2 0, wp 3 0, wp 4 0, wp 5 0, wp 6 0, wp 7 0, wp 8 0,
                  wp 9 0, wp 0 0]"


section \<open>The gate and the passes of the loop\<close>

lemma gate_iff:
  "gate self \<longleftrightarrow> dbw_enabled self \<noteq> None \<and> current_velocity self \<noteq> None
     \<and> linear_velocity self \<noteq> None \<and> angular_velocity self \<noteq> None"
  by (cases "dbw_enabled self"; cases "current_velocity self"; cases "linear_velocity self";
      cases "angular_velocity self"; simp add: gate_def)

lemma gate_init: "\<not> gate (init c)"
  by (simp add: gate_def init_def)

lemma gate_enabled_node: "gate (enabled_node v pos wps)"
  by (simp add: gate_def enabled_node_def)

lemma enabled_node_sel:
  "controller (enabled_node v pos wps) = 0"
  "current_velocity (enabled_node v pos wps) = Some v"
  "linear_velocity (enabled_node v pos wps) = Some v"
  "angular_velocity (enabled_node v pos wps) = Some v"
  "dbw_enabled (enabled_node v pos wps) = Some \<lparr>data = True\<rparr>"
  "current_position (enabled_node v pos wps) = pos"
  "waypoints (enabled_node v pos wps) = wps"
  by (simp_all add: enabled_node_def)

lemma loop_body_inactive: "\<not> gate self \<Longrightarrow> loop_body control polyfit self = Inr ([], self)"
  by (simp add: loop_body_def)



lemma calculate_cte_short:
  "length wps < 11 \<Longrightarrow> calculate_cte polyfit pos wps = Inl IndexError"
  by (simp add: calculate_cte_def Let_def)

lemma loop_body_raises:
  assumes "gate self" "current_position self = Some pos" "waypoints self = Some wps"
    "calculate_cte polyfit pos wps = Inl e"
  shows "loop_body control polyfit self = Inl e"
  using assms by (simp add: loop_body_def cte_step_def)

lemma loop_body_computed:
  assumes "gate self" "current_position self = Some pos" "waypoints self = Some wps"
    "calculate_cte polyfit pos wps = Inr cte"
    "control (controller self) (the (current_velocity self)) (the (linear_velocity self))
       (the (angular_velocity self)) cte = ((t, b, s), c')"
  shows "loop_body control polyfit self =
           Inr (Cte_pub cte # publish t b s @ [Rate_sleep], self\<lparr>controller := c'\<rparr>)"
  using assms by (simp add: loop_body_def cte_step_def)

lemma loop_body_fallback:
  assumes "gate self" "current_position self = None \<or> waypoints self = None"
    "control (controller self) (the (current_velocity self)) (the (linear_velocity self))
       (the (angular_velocity self)) 0 = ((t, b, s), c')"
  shows "loop_body control polyfit self =
           Inr (publish t b s @ [Rate_sleep], self\<lparr>controller := c'\<rparr>)"
  using assms by (auto simp: loop_body_def cte_step_def split: option.splits)

subsection \<open>The enable message\<close>

text \<open>
  C1. Actuation is published on a pass only when the enable signal is true and the three
  velocities are present; after the enable flag goes from true to false, the next pass
  publishes nothing. The node does not behave so: \<^verbatim>\<open>dbw_enabled_cb\<close> caches the message
  object, which is true in the test of the loop whatever its \<^verbatim>\<open>data\<close>. In the execution
  below the velocities arrive, an enable message with \<^verbatim>\<open>data = True\<close> arrives, a pass
  runs, a message with \<^verbatim>\<open>data = False\<close> arrives, and the next pass publishes the three
  commands again.
\<close>

theorem disable_message_does_not_stop_actuation:
  "case control c 2 3 (1/2) 0 of ((t1, b1, s1), c1) \<Rightarrow>
   case control c1 2 3 (1/2) 0 of ((t2, b2, s2), c2) \<Rightarrow>
     fst (loop control polyfit
       [Current_velocity \<lparr>twist_linear_x = 2, twist_angular_z = 0\<rparr>,
        Twist_cmd \<lparr>twist_linear_x = 3, twist_angular_z = 1/2\<rparr>,
        Dbw_enabled \<lparr>data = True\<rparr>, Pass,
        Dbw_enabled \<lparr>data = False\<rparr>, Pass] (init c))
     = [publish t1 b1 s1 @ [Rate_sleep], publish t2 b2 s2 @ [Rate_sleep]]"
  by (simp add: loop_body_def gate_def init_def cte_step_def dbw_enabled_cb_def twist_cb_def
      velocity_cb_def split: prod.splits)

subsection \<open>Errors of the estimator\<close>

text \<open>
  C2, as amended. On a pass with the gate active and pose and path present, a path of
  fewer than 11 points makes the estimator raise an index error, and any error the
  estimator raises leaves the pass and ends the loop: nothing is published on that pass,
  and there is no fallback to 0.
\<close>

theorem short_path_raises_out_of_loop:
  assumes "gate self" "current_position self = Some pos" "waypoints self = Some wps"
  shows "(length wps < 11 \<longrightarrow> calculate_cte polyfit pos wps = Inl IndexError) \<and>
         (\<forall>e. calculate_cte polyfit pos wps = Inl e \<longrightarrow>
            loop_body control polyfit self = Inl e \<and>
            loop control polyfit (Pass # es) self = ([], Inl e))"
  using assms by (simp add: calculate_cte_short loop_body_raises)

theorem short_path_raises_witness:
  "gate (enabled_node 1 (Some (5, 2)) (Some [wp 0 0, wp 1 0])) \<and>
   length [wp 0 0, wp 1 0] < 11 \<and>
   calculate_cte normal_equations_fit (5, 2) [wp 0 0, wp 1 0] = Inl IndexError \<and>
   loop_body sample_control normal_equations_fit
     (enabled_node 1 (Some (5, 2)) (Some [wp 0 0, wp 1 0])) = Inl IndexError \<and>
   loop sample_control normal_equations_fit (Pass # [Pass])
     (enabled_node 1 (Some (5, 2)) (Some [wp 0 0, wp 1 0])) = ([], Inl IndexError)"
proof -
  have g: "gate (enabled_node 1 (Some (5, 2)) (Some [wp 0 0, wp 1 0]))"
    by (rule gate_enabled_node)
  have n: "length [wp 0 0, wp 1 0] < 11"
    by simp
  note t = short_path_raises_out_of_loop [OF g enabled_node_sel(6) enabled_node_sel(7),
      where polyfit = normal_equations_fit and control = sample_control and es = "[Pass]"]
  from t n have c: "calculate_cte normal_equations_fit (5, 2) [wp 0 0, wp 1 0] = Inl IndexError"
    by blast
  with t g n show ?thesis
    by blast
qed

text \<open>
  The claim as stated fails on a path of ten points: the first pass raises, and the loop
  ends with the index error and without any publication.
\<close>

theorem short_path_counterexample:
  "loop sample_control normal_equations_fit [Pass, Pass]
     (enabled_node 1 (Some (5, 2))
        (Some [wp 0 0, wp 1 0, wp 2 0, wp 3 0, wp 4 0, wp 5 0, wp 6 0, wp 7 0, wp 8 0, wp 9 0]))
   = ([], Inl IndexError)"
  by (simp add: loop_body_def gate_def enabled_node_def cte_step_def calculate_cte_def)

subsection \<open>The wait at the end of a pass\<close>

text \<open>
  C3. The wait for the 50 Hz period is applied on every pass of the loop, whether the
  gate is active or not. The node does not behave so: \<^verbatim>\<open>rate.sleep()\<close> stands inside the
  guarded branch. From the state after \<^verbatim>\<open>__init__\<close>, any number of passes runs without a
  single effect, hence without a wait.
\<close>

theorem inactive_passes_never_sleep:
  "loop control polyfit (replicate n Pass) (init c) = (replicate n [], Inr (init c))"
  by (induction n) (simp_all add: loop_body_inactive gate_init)


section \<open>The estimator\<close>

lemma foldl_horner:
  "foldl (\<lambda>y pv. y * x + pv) a p = a * x ^ length p + poly_at p x"
  by (induction p arbitrary: a) (simp_all add: algebra_simps)

lemma polyval_poly_at: "polyval p x = poly_at p x"
  by (simp add: polyval_def foldl_horner)

lemma sub_translate: "sub p origin = translate origin p"
  by (cases p; cases origin) (simp add: translate_def)

lemma dot_rotate:
  "dot p ((cos a, - sin a), (sin a, cos a)) = rotate (- a) p"
  by (cases p) (simp add: rotate_def)

text \<open>
  C4. For every pose and every path of at least 11 points, \<^verbatim>\<open>calculate_cte\<close> is the
  sequence of steps of \<open>cte_steps\<close>: translate the path so that point 0 is the origin,
  take the heading \<open>arctan2\<close> of the translated point 10, rotate the translated points by
  minus the heading, fit a polynomial of degree 2 to the rotated points (abscissae to
  ordinates) with numpy's least-squares fit, move the pose by the same translation and
  rotation, and return its ordinate minus the polynomial at its abscissa.
\<close>

theorem calculate_cte_follows_steps:
  assumes "11 \<le> length wps"
  shows "calculate_cte polyfit pose wps = cte_steps polyfit pose (map position wps)"
proof -
  from assms have "wps \<noteq> []" and "\<not> length wps \<le> 10"
    by auto
  then show ?thesis
    by (simp add: calculate_cte_def cte_steps_def Let_def sub_translate dot_rotate
        polyval_poly_at comp_def split: sum.splits)
qed

theorem calculate_cte_follows_steps_witness:
  "11 \<le> length straight_path \<and>
   calculate_cte normal_equations_fit (5, 2) straight_path =
     cte_steps normal_equations_fit (5, 2) (map position straight_path)"
proof -
  have n: "11 \<le> length straight_path"
    by (simp add: straight_path_def)
  from n calculate_cte_follows_steps [OF n] show ?thesis
    by (intro conjI)
qed

subsection \<open>The straight path\<close>

lemma arctan2_pos_axis: "0 < x \<Longrightarrow> arctan2 0 x = 0"
  by (simp add: arctan2_def)

lemma straight_positions:
  "map position straight_path = map (\<lambda>i. (real i, 0)) [0..<21]"
  by (simp add: straight_path_def position_def wp_def comp_def)

lemma sse_nonneg: "0 \<le> sse c xs ys"
  by (auto simp: sse_def intro!: sum_list_nonneg)

lemma straight_zip_mem:
  "i < 21 \<Longrightarrow> (real i, 0) \<in> set (zip (map real [0..<21]) (replicate 21 0))"
  by (auto simp: set_zip intro!: exI [of _ i])


lemma calculate_cte_straight:
  "calculate_cte polyfit (px, py) straight_path =
     (case polyfit (map real [0..<21]) (replicate 21 0) 2 of
        Inl e \<Rightarrow> Inl e
      | Inr c \<Rightarrow> Inr (py - poly_at c px))"
  by (simp add: calculate_cte_def straight_positions Let_def comp_def arctan2_pos_axis
      map_replicate_const polyval_poly_at split: sum.splits)

lemma sum_list_map_zero:
  "(\<And>z. z \<in> set zs \<Longrightarrow> f z = (0::real)) \<Longrightarrow> sum_list (map f zs) = 0"
  by (induction zs) auto

lemma sse_zero_poly: "sse [0, 0, 0] xs (replicate n 0) = 0"
  unfolding sse_def by (rule sum_list_map_zero) (auto dest: set_zip_rightD)

lemma sse_zero_point:
  assumes "sse c xs ys = 0" and "(x, y) \<in> set (zip xs ys)"
  shows "poly_at c x = y"
proof -
  let ?vs = "map (\<lambda>(x, y). (poly_at c x - y)\<^sup>2) (zip xs ys)"
  have nonneg: "\<And>v. v \<in> set ?vs \<Longrightarrow> 0 \<le> v"
    by auto
  from assms(1) have "sum_list ?vs = 0"
    by (simp add: sse_def)
  with sum_list_nonneg_eq_0_iff [of ?vs, OF nonneg] have all: "\<forall>v \<in> set ?vs. v = 0"
    by blast
  from assms(2) have "(poly_at c x - y)\<^sup>2 \<in> set ?vs"
    by force
  with all have "(poly_at c x - y)\<^sup>2 = 0"
    by blast
  then show ?thesis by simp
qed

lemma least_squares_straight:
  assumes "least_squares (map real [0..<21]) (replicate 21 0) 2 c"
  shows "poly_at c x = 0"
proof -
  let ?xs = "map real [0..<21]" and ?ys = "replicate 21 (0::real)"
  from assms have len: "length c = 3" and "sse c ?xs ?ys \<le> sse [0, 0, 0] ?xs ?ys"
    by (simp_all add: least_squares_def)
  then have z: "sse c ?xs ?ys = 0"
    using sse_nonneg [of c ?xs ?ys] by (simp add: sse_zero_poly)
  from len obtain a b d where c: "c = [a, b, d]"
    by (auto simp: length_Suc_conv eval_nat_numeral)
  have p0: "poly_at c (real 0) = 0"
    by (rule sse_zero_point [OF z straight_zip_mem]) simp
  have p1: "poly_at c (real 1) = 0"
    by (rule sse_zero_point [OF z straight_zip_mem]) simp
  have p2: "poly_at c (real 2) = 0"
    by (rule sse_zero_point [OF z straight_zip_mem]) simp
  note p0 p1 p2
  with c have "d = 0" "a + b = 0" "4 * a + 2 * b = 0"
    by simp_all
  then have "a = 0" "b = 0"
    by simp_all
  with \<open>d = 0\<close> c show ?thesis by simp
qed

lemma cte_straight_general:
  assumes "polyfit (map real [0..<21]) (replicate 21 0) 2 = Inr c"
    and "least_squares (map real [0..<21]) (replicate 21 0) 2 c"
  shows "calculate_cte polyfit (px, py) straight_path = Inr py"
  using assms by (simp add: calculate_cte_straight least_squares_straight)


lemma least_squares_fit_straight:
  "least_squares (map real [0..<21]) (replicate 21 0) 2 [0, 0, 0]"
  by (simp add: least_squares_def sse_zero_poly sse_nonneg)

lemma upt_21: "[0..<21] = [0,1,2,3,4,5,6,7,8,9,10,11,12,13,14,15,16,17,18,19,20]"
  by (simp add: upt_conv_Cons)

lemma fit_zero_ordinates:
  assumes "det3 (sum_list (map (\<lambda>x. x ^ 4) xs)) (sum_list (map (\<lambda>x. x ^ 3) xs))
                (sum_list (map (\<lambda>x. x ^ 2) xs))
                (sum_list (map (\<lambda>x. x ^ 3) xs)) (sum_list (map (\<lambda>x. x ^ 2) xs)) (sum_list xs)
                (sum_list (map (\<lambda>x. x ^ 2) xs)) (sum_list xs) (real (length xs)) \<noteq> 0"
  shows "normal_equations_fit xs (replicate n 0) 2 = Inr [0, 0, 0]"
proof -
  have "sum_list (map (\<lambda>(x, y). x * y) (zip xs (replicate n 0))) = 0"
    by (rule sum_list_map_zero) (auto dest: set_zip_rightD)
  moreover have "sum_list (map (\<lambda>(x, y). x ^ 2 * y) (zip xs (replicate n 0))) = 0"
    by (rule sum_list_map_zero) (auto dest: set_zip_rightD)
  ultimately show ?thesis
    using assms by (simp add: normal_equations_fit_def Let_def det3_def sum_list_replicate)
qed

lemma fit_straight:
  "normal_equations_fit (map real [0..<21]) (replicate 21 0) 2 = Inr [0, 0, 0]"
  by (rule fit_zero_ordinates) (simp add: upt_21 det3_def)


lemma cte_straight_fit:
  "calculate_cte normal_equations_fit (px, py) straight_path = Inr py"
  using fit_straight least_squares_fit_straight
  by (rule cte_straight_general [where polyfit = normal_equations_fit and c = "[0, 0, 0]"])

text \<open>
  C6. On the straight path \<open>(0,0), (1,0), ..., (20,0)\<close> the estimator returns 2 for
  the pose \<open>(5, 2)\<close> and -2 for the pose \<open>(5, -2)\<close>, in exact arithmetic and for every
  fit function that returns a least-squares fit on the columns of this path.
\<close>

theorem cte_of_straight_path:
  assumes "polyfit (map real [0..<21]) (replicate 21 0) 2 = Inr c"
    and "least_squares (map real [0..<21]) (replicate 21 0) 2 c"
  shows "calculate_cte polyfit (5, 2) straight_path = Inr 2 \<and>
         calculate_cte polyfit (5, - 2) straight_path = Inr (- 2)"
  using assms by (simp add: cte_straight_general)


theorem cte_of_straight_path_witness:
  "normal_equations_fit (map real [0..<21]) (replicate 21 0) 2 = Inr [0, 0, 0] \<and>
   least_squares (map real [0..<21]) (replicate 21 0) 2 [0, 0, 0] \<and>
   calculate_cte normal_equations_fit (5, 2) straight_path = Inr 2 \<and>
   calculate_cte normal_equations_fit (5, - 2) straight_path = Inr (- 2)"
  using cte_of_straight_path [where polyfit = normal_equations_fit and c = "[0, 0, 0]"]
    fit_straight least_squares_fit_straight
  by blast

subsection \<open>Invariance under rigid motions\<close>

lemma sqrt_factor:
  assumes "x \<noteq> 0"
  shows "sqrt (x\<^sup>2 + y\<^sup>2) = \<bar>x\<bar> * sqrt (1 + (y / x)\<^sup>2)"
proof -
  from assms have "x\<^sup>2 + y\<^sup>2 = x\<^sup>2 * (1 + (y / x)\<^sup>2)"
    by (simp add: field_simps power_divide)
  then show ?thesis
    by (simp add: real_sqrt_mult)
qed

lemma cos_arctan2:
  assumes "x \<noteq> 0 \<or> y \<noteq> 0"
  shows "cos (arctan2 y x) = x / sqrt (x\<^sup>2 + y\<^sup>2)"
proof (cases "x = 0")
  case True
  with assms show ?thesis
    by (simp add: arctan2_def)
next
  case False
  have pos: "0 < sqrt (1 + (y / x)\<^sup>2)"
    by (simp add: add_pos_nonneg)
  show ?thesis
  proof (cases "0 < x")
    case True
    then show ?thesis
      using pos by (simp add: arctan2_def cos_arctan sqrt_factor)
  next
    case neg: False
    with False have "x < 0" by simp
    then show ?thesis
      using pos by (simp add: arctan2_def cos_arctan sqrt_factor field_simps)
  qed
qed

lemma sin_arctan2:
  assumes "x \<noteq> 0 \<or> y \<noteq> 0"
  shows "sin (arctan2 y x) = y / sqrt (x\<^sup>2 + y\<^sup>2)"
proof (cases "x = 0")
  case True
  with assms show ?thesis
    by (simp add: arctan2_def)
next
  case False
  have pos: "0 < sqrt (1 + (y / x)\<^sup>2)"
    by (simp add: add_pos_nonneg)
  show ?thesis
  proof (cases "0 < x")
    case True
    then show ?thesis
      using pos by (simp add: arctan2_def sin_arctan sqrt_factor)
  next
    case neg: False
    with False have "x < 0" by simp
    then show ?thesis
      using pos by (simp add: arctan2_def sin_arctan sqrt_factor field_simps)
  qed
qed

lemma frame_closed_form:
  assumes "v \<noteq> (0, 0)"
  shows "frame v q =
    ((fst q * fst v + snd q * snd v) / sqrt ((fst v)\<^sup>2 + (snd v)\<^sup>2),
     (snd q * fst v - fst q * snd v) / sqrt ((fst v)\<^sup>2 + (snd v)\<^sup>2))"
proof -
  from assms have nz: "fst v \<noteq> 0 \<or> snd v \<noteq> 0"
    by (cases v) auto
  show ?thesis
    by (cases q) (simp add: frame_def cos_arctan2 [OF nz] sin_arctan2 [OF nz]
        add_divide_distrib diff_divide_distrib)
qed

lemma rotation_norm_gen:
  "(x * c - y * s)\<^sup>2 + (x * s + y * c)\<^sup>2 = (x\<^sup>2 + y\<^sup>2) * (s\<^sup>2 + c\<^sup>2)" for x :: real
  by algebra

lemma rotation_dot_gen:
  "(qx * c - qy * s) * (vx * c - vy * s) + (qx * s + qy * c) * (vx * s + vy * c) =
   (qx * vx + qy * vy) * (s\<^sup>2 + c\<^sup>2)" for qx :: real
  by algebra

lemma rotation_cross_gen:
  "(qx * s + qy * c) * (vx * c - vy * s) - (qx * c - qy * s) * (vx * s + vy * c) =
   (qy * vx - qx * vy) * (s\<^sup>2 + c\<^sup>2)" for qx :: real
  by algebra

lemma rotation_norm:
  "(x * cos phi - y * sin phi)\<^sup>2 + (x * sin phi + y * cos phi)\<^sup>2 = x\<^sup>2 + y\<^sup>2"
  for x :: real
  using rotation_norm_gen [of x "cos phi" y "sin phi"] by simp

lemma rotation_dot:
  "(qx * cos phi - qy * sin phi) * (vx * cos phi - vy * sin phi) +
   (qx * sin phi + qy * cos phi) * (vx * sin phi + vy * cos phi) = qx * vx + qy * vy"
  for qx :: real
  using rotation_dot_gen [of qx "cos phi" qy "sin phi" vx vy] by simp

lemma rotation_cross:
  "(qx * sin phi + qy * cos phi) * (vx * cos phi - vy * sin phi) -
   (qx * cos phi - qy * sin phi) * (vx * sin phi + vy * cos phi) = qy * vx - qx * vy"
  for qx :: real
  using rotation_cross_gen [of qx "sin phi" qy "cos phi" vx vy] by simp

lemma rigid_nonzero:
  assumes "v \<noteq> (0, 0)"
  shows "rigid phi (0, 0) v \<noteq> (0, 0)"
proof
  assume z: "rigid phi (0, 0) v = (0, 0)"
  then have "(fst v * cos phi - snd v * sin phi)\<^sup>2 + (fst v * sin phi + snd v * cos phi)\<^sup>2 = 0"
    by (simp add: rigid_def)
  then have "(fst v)\<^sup>2 + (snd v)\<^sup>2 = 0"
    by (simp only: rotation_norm)
  with assms show False
    by (cases v) (simp add: sum_power2_eq_zero_iff)
qed

lemma frame_rigid:
  assumes "v \<noteq> (0, 0)"
  shows "frame (rigid phi (0, 0) v) (rigid phi (0, 0) q) = frame v q"
  by (simp add: frame_closed_form [OF assms] frame_closed_form [OF rigid_nonzero [OF assms]])
    (simp add: rigid_def rotation_norm rotation_dot rotation_cross)

lemma sub_rigid: "sub (rigid phi t p) (rigid phi t origin) = rigid phi (0, 0) (sub p origin)"
  by (cases p; cases origin) (simp add: rigid_def algebra_simps)

lemma position_move: "position (move_waypoint phi t w) = rigid phi t (position w)"
  by (simp add: position_def move_waypoint_def)

lemma calculate_cte_frame:
  "calculate_cte polyfit p wps =
     (if length wps \<le> 10 then Inl IndexError
      else case polyfit
             (map (\<lambda>w. fst (frame (sub (position (wps ! 10)) (position (wps ! 0)))
                               (sub (position w) (position (wps ! 0))))) wps)
             (map (\<lambda>w. snd (frame (sub (position (wps ! 10)) (position (wps ! 0)))
                               (sub (position w) (position (wps ! 0))))) wps) 2 of
             Inl e \<Rightarrow> Inl e
           | Inr c \<Rightarrow>
               Inr (snd (frame (sub (position (wps ! 10)) (position (wps ! 0)))
                          (sub p (position (wps ! 0)))) -
                    polyval c (fst (frame (sub (position (wps ! 10)) (position (wps ! 0)))
                                      (sub p (position (wps ! 0)))))))"
proof (cases "length wps \<le> 10")
  case True
  then show ?thesis
    by (simp add: calculate_cte_short)
next
  case False
  then have "wps \<noteq> []" by auto
  with False show ?thesis
    by (simp add: calculate_cte_def Let_def frame_def comp_def split: sum.splits)
qed


text \<open>
  C5, as amended. Moving every path point and the pose by one rigid motion (a rotation
  followed by a translation) leaves the result of the estimator unchanged, provided
  point 10 of the path differs from point 0 (or the path has at most 10 points, where
  the estimator raises the same error before and after).
\<close>

theorem cte_frame_invariant:
  assumes "length wps \<le> 10 \<or> position (wps ! 10) \<noteq> position (wps ! 0)"
  shows "calculate_cte polyfit (rigid phi t pose) (map (move_waypoint phi t) wps) =
         calculate_cte polyfit pose wps"
proof (cases "length wps \<le> 10")
  case True
  then show ?thesis
    by (simp add: calculate_cte_short)
next
  case False
  with assms have "sub (position (wps ! 10)) (position (wps ! 0)) \<noteq> (0, 0)"
    by (cases "position (wps ! 10)"; cases "position (wps ! 0)") auto
  moreover from False have "0 < length wps" and "10 < length wps"
    by auto
  then have "map (move_waypoint phi t) wps ! 0 = move_waypoint phi t (wps ! 0)"
    and "map (move_waypoint phi t) wps ! 10 = move_waypoint phi t (wps ! 10)"
    by (simp_all only: nth_map)
  ultimately show ?thesis
    using False
    by (simp add: calculate_cte_frame position_move sub_rigid frame_rigid comp_def
        cong: sum.case_cong)
qed

lemma rigid_pi: "rigid pi (0, 0) (x, y) = (- x, - y)"
  by (simp add: rigid_def)

lemma position_wp: "position (wp x y) = (x, y)"
  by (simp add: position_def wp_def)

lemma closed_positions:
  "map position closed_path =
     [(0, 0), (1, 0), (2, 0), (3, 0), (4, 0), (5, 0), (6, 0), (7, 0), (8, 0), (9, 0), (0, 0)]"
  by (simp add: closed_path_def position_wp)

lemma turned_positions:
  "map position (map (move_waypoint pi (0, 0)) closed_path) =
     [(0, 0), (- 1, 0), (- 2, 0), (- 3, 0), (- 4, 0), (- 5, 0), (- 6, 0), (- 7, 0), (- 8, 0),
      (- 9, 0), (0, 0)]"
  by (simp add: closed_path_def position_move position_wp rigid_pi)

lemma arctan2_origin: "arctan2 0 0 = 0"
  by (simp add: arctan2_def)

lemma fit_closed:
  "normal_equations_fit [0, 1, 2, 3, 4, 5, 6, 7, 8, 9, 0] [0, 0, 0, 0, 0, 0, 0, 0, 0, 0, 0] 2
     = Inr [0, 0, 0]"
  by (simp add: normal_equations_fit_def Let_def det3_def)

lemma fit_turned:
  "normal_equations_fit [0, - 1, - 2, - 3, - 4, - 5, - 6, - 7, - 8, - 9, 0]
     [0, 0, 0, 0, 0, 0, 0, 0, 0, 0, 0] 2 = Inr [0, 0, 0]"
  by (simp add: normal_equations_fit_def Let_def det3_def)

lemma cte_closed: "calculate_cte normal_equations_fit (5, 2) closed_path = Inr 2"
  by (simp add: calculate_cte_def closed_positions Let_def arctan2_origin fit_closed
      polyval_def)

lemma cte_turned:
  "calculate_cte normal_equations_fit (rigid pi (0, 0) (5, 2))
     (map (move_waypoint pi (0, 0)) closed_path) = Inr (- 2)"
  by (simp add: calculate_cte_def turned_positions Let_def arctan2_origin fit_turned
      polyval_def rigid_pi del: map_map)


lemma straight_nth: "i < 21 \<Longrightarrow> position (straight_path ! i) = (real i, 0)"
  by (simp add: straight_path_def position_wp)

theorem cte_frame_invariant_witness:
  "(length straight_path \<le> 10 \<or> position (straight_path ! 10) \<noteq> position (straight_path ! 0)) \<and>
   calculate_cte normal_equations_fit (rigid (pi / 2) (3, 4) (5, 2))
     (map (move_waypoint (pi / 2) (3, 4)) straight_path) = Inr 2"
proof -
  have h: "length straight_path \<le> 10 \<or>
      position (straight_path ! 10) \<noteq> position (straight_path ! 0)"
    by (simp add: straight_nth)
  from cte_frame_invariant [OF h, of normal_equations_fit "pi / 2" "(3, 4)" "(5, 2)"]
  have "calculate_cte normal_equations_fit (rigid (pi / 2) (3, 4) (5, 2))
     (map (move_waypoint (pi / 2) (3, 4)) straight_path) = Inr 2"
    by (simp only: cte_straight_fit)
  with h show ?thesis
    by (intro conjI)
qed


text \<open>
  The claim as stated fails where point 10 of the path is point 0 again: the heading is
  then 0 whatever the orientation of the path, and a half turn of path and pose changes
  the sign of the result.
\<close>

theorem cte_frame_counterexample:
  "calculate_cte normal_equations_fit (5, 2) closed_path = Inr 2 \<and>
   calculate_cte normal_equations_fit (rigid pi (0, 0) (5, 2))
     (map (move_waypoint pi (0, 0)) closed_path) = Inr (- 2)"
  by (simp only: cte_closed cte_turned)


section \<open>Publication\<close>



section \<open>The diagnostic\<close>

text \<open>
  C7, as amended. On a pass with the gate active: when pose or path is absent, no
  diagnostic is published, 0 is passed to the controller as the cross-track error and no
  error is raised; when both are present, the estimator runs, and either it raises and
  the pass raises with it, or its value is published as the diagnostic and passed to the
  controller. So on every pass that completes, the diagnostic is published if and only if
  pose and path are both present.
\<close>

theorem diagnostic_iff_cte_computed:
  assumes "gate self"
    and "control (controller self) (the (current_velocity self)) (the (linear_velocity self))
           (the (angular_velocity self)) 0 = ((t, b, s), c')"
  shows "(current_position self = None \<or> waypoints self = None \<longrightarrow>
            loop_body control polyfit self =
              Inr (publish t b s @ [Rate_sleep], self\<lparr>controller := c'\<rparr>)) \<and>
         (\<forall>out self'. loop_body control polyfit self = Inr (out, self') \<longrightarrow>
            ((\<exists>v. Cte_pub v \<in> set out) \<longleftrightarrow>
               current_position self \<noteq> None \<and> waypoints self \<noteq> None)) \<and>
         (\<forall>pos wps. current_position self = Some pos \<and> waypoints self = Some wps \<longrightarrow>
            (case calculate_cte polyfit pos wps of
               Inl e \<Rightarrow> loop_body control polyfit self = Inl e
             | Inr cte \<Rightarrow>
                 (case control (controller self) (the (current_velocity self))
                    (the (linear_velocity self)) (the (angular_velocity self)) cte of
                    ((t', b', s'), c'') \<Rightarrow>
                      loop_body control polyfit self =
                        Inr (Cte_pub cte # publish t' b' s' @ [Rate_sleep],
                             self\<lparr>controller := c''\<rparr>))))"
proof (intro conjI allI impI)
  assume a: "current_position self = None \<or> waypoints self = None"
  show "loop_body control polyfit self =
      Inr (publish t b s @ [Rate_sleep], self\<lparr>controller := c'\<rparr>)"
    using assms a by (simp add: loop_body_fallback)
next
  fix out self'
  assume l: "loop_body control polyfit self = Inr (out, self')"
  show "(\<exists>v. Cte_pub v \<in> set out) \<longleftrightarrow>
      current_position self \<noteq> None \<and> waypoints self \<noteq> None"
  proof (cases "current_position self = None \<or> waypoints self = None")
    case True
    from assms True l
    have "out = publish t b s @ [Rate_sleep]" by (simp add: loop_body_fallback)
    with True show ?thesis by (auto simp: publish_def)
  next
    case False
    then obtain pos wps where p: "current_position self = Some pos" "waypoints self = Some wps"
      by auto
    with l assms(1) obtain cte where "calculate_cte polyfit pos wps = Inr cte"
      by (auto simp: loop_body_def cte_step_def split: sum.splits)
    with l assms(1) p have "Cte_pub cte \<in> set out"
      by (auto simp: loop_body_def cte_step_def split: prod.splits)
    with False show ?thesis by auto
  qed
next
  fix pos wps
  assume p: "current_position self = Some pos \<and> waypoints self = Some wps"
  show "case calculate_cte polyfit pos wps of
      Inl e \<Rightarrow> loop_body control polyfit self = Inl e
    | Inr cte \<Rightarrow>
        (case control (controller self) (the (current_velocity self))
           (the (linear_velocity self)) (the (angular_velocity self)) cte of
           ((t', b', s'), c'') \<Rightarrow>
             loop_body control polyfit self =
               Inr (Cte_pub cte # publish t' b' s' @ [Rate_sleep],
                    self\<lparr>controller := c''\<rparr>))"
    using p assms(1) by (simp add: loop_body_def cte_step_def split: sum.splits prod.splits)
qed


theorem diagnostic_iff_cte_computed_witness:
  "gate (enabled_node 1 None None) \<and>
   sample_control 0 1 1 1 0 = ((0, 0, 1), 1) \<and>
   loop_body sample_control normal_equations_fit (enabled_node 1 None None) =
     Inr (publish 0 0 1 @ [Rate_sleep], (enabled_node 1 None None)\<lparr>controller := 1\<rparr>) \<and>
   gate (enabled_node 1 (Some (5, 2)) (Some straight_path)) \<and>
   calculate_cte normal_equations_fit (5, 2) straight_path = Inr 2 \<and>
   loop_body sample_control normal_equations_fit
       (enabled_node 1 (Some (5, 2)) (Some straight_path)) =
     Inr (Cte_pub 2 # publish 0 2 1 @ [Rate_sleep],
          (enabled_node 1 (Some (5, 2)) (Some straight_path))\<lparr>controller := 1\<rparr>)"
proof -
  have c0: "sample_control 0 1 1 1 0 = ((0, 0, 1), 1)"
    and c2: "sample_control 0 1 1 1 2 = ((0, 2, 1), 1)"
    by (simp_all add: sample_control_def)
  have e: "calculate_cte normal_equations_fit (5, 2) straight_path = Inr 2"
    by (rule cte_straight_fit)
  have a: "loop_body sample_control normal_equations_fit (enabled_node 1 None None) =
     Inr (publish 0 0 1 @ [Rate_sleep], (enabled_node 1 None None)\<lparr>controller := 1\<rparr>)"
    using diagnostic_iff_cte_computed [where self = "enabled_node 1 None None"
        and control = sample_control and polyfit = normal_equations_fit
        and t = 0 and b = 0 and s = 1 and c' = 1]
    by (simp add: gate_enabled_node enabled_node_sel c0)
  have b: "loop_body sample_control normal_equations_fit
       (enabled_node 1 (Some (5, 2)) (Some straight_path)) =
     Inr (Cte_pub 2 # publish 0 2 1 @ [Rate_sleep],
          (enabled_node 1 (Some (5, 2)) (Some straight_path))\<lparr>controller := 1\<rparr>)"
    using diagnostic_iff_cte_computed [where self = "enabled_node 1 (Some (5, 2)) (Some straight_path)"
        and control = sample_control and polyfit = normal_equations_fit
        and t = 0 and b = 0 and s = 1 and c' = 1]
    by (simp add: gate_enabled_node enabled_node_sel c0 c2 e)
  from a b c0 e show ?thesis
    by (simp add: gate_enabled_node)
qed


text \<open>
  The claim as stated fails on a path of three points: pose and path are present, and
  the pass raises without publishing a diagnostic.
\<close>

theorem diagnostic_counterexample:
  "loop_body sample_control normal_equations_fit
     (enabled_node 1 (Some (1, 1)) (Some [wp 0 0, wp 1 0, wp 2 0])) = Inl IndexError"
  by (simp add: loop_body_def gate_def enabled_node_def cte_step_def calculate_cte_def)


section \<open>Presence of the inputs\<close>

text \<open>
  C10, as amended. The gate tests the presence of the velocity inputs, not their truth:
  on a pass where the enable signal is set (the cached enable message has \<^verbatim>\<open>data\<close>
  true), the gate is active exactly when the current velocity and the two requested
  velocities are present. When all three are present and equal to 0, the gate is active
  and the pass takes the guarded branch: unless the estimator raises first, the
  controller is called with (0, 0, 0, cte) and its result is published.
\<close>

theorem gate_is_presence_check:
  assumes "dbw_enabled self = Some msg" and "data msg"
  shows "(gate self \<longleftrightarrow> current_velocity self \<noteq> None \<and> linear_velocity self \<noteq> None \<and>
            angular_velocity self \<noteq> None) \<and>
         (current_velocity self = Some 0 \<and> linear_velocity self = Some 0 \<and>
            angular_velocity self = Some 0 \<longrightarrow>
            gate self \<and>
            (case cte_step polyfit self of
               Inl e \<Rightarrow> loop_body control polyfit self = Inl e
             | Inr (cte, diag) \<Rightarrow>
                 (case control (controller self) 0 0 0 cte of
                    ((t, b, s), c') \<Rightarrow>
                      loop_body control polyfit self =
                        Inr (diag @ publish t b s @ [Rate_sleep], self\<lparr>controller := c'\<rparr>))))"
  using assms by (auto simp: gate_iff loop_body_def split: sum.splits prod.splits)

theorem gate_is_presence_check_witness:
  "dbw_enabled (enabled_node 0 None None) = Some \<lparr>data = True\<rparr> \<and>
   data \<lparr>data = True\<rparr> \<and>
   current_velocity (enabled_node 0 None None) = Some 0 \<and>
   linear_velocity (enabled_node 0 None None) = Some 0 \<and>
   angular_velocity (enabled_node 0 None None) = Some 0 \<and>
   gate (enabled_node 0 None None) \<and>
   loop_body sample_control normal_equations_fit (enabled_node 0 None None) =
     Inr (publish 0 0 0 @ [Rate_sleep], (enabled_node 0 None None)\<lparr>controller := 1\<rparr>)"
proof -
  have d: "data \<lparr>data = True\<rparr>"
    by simp
  note t = gate_is_presence_check [OF enabled_node_sel(5) d,
      where polyfit = normal_equations_fit and control = sample_control and v1 = 0
        and pos1 = None and wps1 = None]
  have c: "cte_step normal_equations_fit (enabled_node 0 None None) = Inr (0, [])"
    by (simp add: cte_step_def enabled_node_sel)
  have s: "sample_control 0 0 0 0 0 = ((0, 0, 0), 1)"
    by (simp add: sample_control_def)
  from t have "gate (enabled_node 0 None None)"
    by (simp add: enabled_node_sel)
  moreover from t have "loop_body sample_control normal_equations_fit (enabled_node 0 None None) =
     Inr (publish 0 0 0 @ [Rate_sleep], (enabled_node 0 None None)\<lparr>controller := 1\<rparr>)"
    by (simp add: enabled_node_sel c s)
  ultimately show ?thesis
    by (simp add: enabled_node_sel)
qed

text \<open>
  The claim as stated fails when pose and path are present and the path is empty: the
  gate is active with all three velocities 0, and the pass raises before the controller
  is called.
\<close>

theorem zero_velocity_counterexample:
  "loop_body sample_control normal_equations_fit (enabled_node 0 (Some (0, 0)) (Some []))
     = Inl IndexError"
  by (simp add: loop_body_def gate_def enabled_node_def cte_step_def calculate_cte_def)

end
